theory Spec2Isabelle
  imports Complex_Main
begin

section \<open>C strings\<close>

text \<open>
  A \<open>char *\<close> of the library is a byte sequence read up to its first NUL byte.
  \<open>string\<close> is a list of bytes; \<open>c_str\<close> is what \<open>strlen\<close>, \<open>strcmp\<close>,
  \<open>strncpy\<close> and \<open>memcpy(p, s, strlen(s) + 1)\<close> see of a buffer.
  Allocation (\<open>malloc\<close>, \<open>realloc\<close>, \<open>calloc\<close>, the \<open>cJSON_Create*\<close> family and
  \<open>curl_easy_init\<close>) is taken to succeed, so the out-of-memory returns of the source are
  not branches of the model, and a conversation pointer handed to a function is a live
  object (the \<open>!c\<close> guards are not branches either).
\<close>

definition c_str :: "string \<Rightarrow> string" where
  "c_str s = takeWhile (\<lambda>ch. ch \<noteq> CHR 0x00) s"

definition dup_str :: "string \<Rightarrow> string" where
  "dup_str s = c_str s"

definition is_c_string :: "string \<Rightarrow> bool" where
  "is_c_string s = (CHR 0x00 \<notin> set s)"

section \<open>The JSON library (cJSON)\<close>

text \<open>
  \<open>chatgpt.c\<close> builds, prints and parses JSON through the cJSON library
  (\<open>#include "cJSON.h"\<close>), which is not part of the library's own sources. This section
  models the cJSON 1.7 functions that \<open>chatgpt.c\<close> calls: a document is a tree, an
  object keeps its members in insertion order (duplicates allowed), and a string value or
  member name is a C string. \<open>byte\<close> is the \<open>unsigned char\<close> value of a character.

  The parser follows \<open>cJSON.c\<close>: \<open>parse_string\<close> first finds the closing quote
  (\<open>string_literal_end\<close>, a backslash hides the next byte) and then decodes the escapes
  (\<open>decode_string\<close>; \<open>parse_hex4\<close> yields 0 on a digit that is not hexadecimal);
  \<open>parse_number\<close> hands at most 63 number characters to \<open>strtod\<close>, whose value is
  taken exactly (a real, not the nearest \<open>double\<close>); \<open>parse_value\<close> tries the
  literals, a string, a number, an array and an object in this order, refuses nesting
  beyond \<open>CJSON_NESTING_LIMIT\<close>, and \<open>cJSON_Parse\<close> accepts any text after the
  first value.
\<close>

datatype json =
    JNull
  | JFalse
  | JTrue
  | JNumber real
  | JString string
  | JArray "json list"
  | JObject "(string \<times> json) list"

definition byte :: "char \<Rightarrow> nat" where
  "byte ch = of_char ch"

definition skip_ws :: "string \<Rightarrow> string" where
  "skip_ws s = dropWhile (\<lambda>ch. byte ch \<le> 32) s"

definition is_digit :: "char \<Rightarrow> bool" where
  "is_digit ch = (48 \<le> byte ch \<and> byte ch \<le> 57)"

definition hex_value :: "char \<Rightarrow> nat option" where
  "hex_value ch =
     (if 48 \<le> byte ch \<and> byte ch \<le> 57 then Some (byte ch - 48)
      else if 65 \<le> byte ch \<and> byte ch \<le> 70 then Some (10 + byte ch - 65)
      else if 97 \<le> byte ch \<and> byte ch \<le> 102 then Some (10 + byte ch - 97)
      else None)"

definition parse_hex4 :: "char \<Rightarrow> char \<Rightarrow> char \<Rightarrow> char \<Rightarrow> nat" where
  "parse_hex4 a b c d =
     (case hex_value a of None \<Rightarrow> 0 | Some w \<Rightarrow>
     (case hex_value b of None \<Rightarrow> 0 | Some x \<Rightarrow>
     (case hex_value c of None \<Rightarrow> 0 | Some y \<Rightarrow>
     (case hex_value d of None \<Rightarrow> 0 | Some z \<Rightarrow> ((w * 16 + x) * 16 + y) * 16 + z))))"

definition utf8_encode :: "nat \<Rightarrow> string option" where
  "utf8_encode cp =
     (if cp < 0x80 then Some [char_of cp]
      else if cp < 0x800 then Some [char_of (0xC0 + cp div 64), char_of (0x80 + cp mod 64)]
      else if cp < 0x10000 then
        Some [char_of (0xE0 + cp div 4096), char_of (0x80 + cp div 64 mod 64),
              char_of (0x80 + cp mod 64)]
      else if cp \<le> 0x10FFFF then
        Some [char_of (0xF0 + cp div 262144), char_of (0x80 + cp div 4096 mod 64),
              char_of (0x80 + cp div 64 mod 64), char_of (0x80 + cp mod 64)]
      else None)"

definition utf16_literal_to_utf8 :: "string \<Rightarrow> (string \<times> nat) option" where
  "utf16_literal_to_utf8 seq =
     (if length seq < 6 then None
      else
        let first_code = parse_hex4 (seq ! 2) (seq ! 3) (seq ! 4) (seq ! 5) in
        if 0xDC00 \<le> first_code \<and> first_code \<le> 0xDFFF then None
        else if 0xD800 \<le> first_code \<and> first_code \<le> 0xDBFF then
          (let second = drop 6 seq in
           if length second < 6 then None
           else if second ! 0 \<noteq> CHR 0x5C \<or> second ! 1 \<noteq> CHR ''u'' then None
           else
             let second_code = parse_hex4 (second ! 2) (second ! 3) (second ! 4) (second ! 5) in
             if second_code < 0xDC00 \<or> 0xDFFF < second_code then None
             else map_option (\<lambda>bs. (bs, 12))
                    (utf8_encode (0x10000 + (first_code mod 1024 * 1024 + second_code mod 1024))))
        else map_option (\<lambda>bs. (bs, 6)) (utf8_encode first_code))"

fun string_literal_end :: "string \<Rightarrow> (string \<times> string) option" where
  "string_literal_end [] = None"
| "string_literal_end (ch # cs) =
     (if ch = CHR 0x22 then Some ([], cs)
      else if ch = CHR 0x5C then
        (case cs of
           [] \<Rightarrow> None
         | e # es \<Rightarrow> map_option (\<lambda>(body, rest). (ch # e # body, rest)) (string_literal_end es))
      else map_option (\<lambda>(body, rest). (ch # body, rest)) (string_literal_end cs))"

fun decode_string :: "string \<Rightarrow> string option" where
  "decode_string [] = Some []"
| "decode_string (ch # cs) =
     (if ch \<noteq> CHR 0x5C then map_option ((#) ch) (decode_string cs)
      else
        (case cs of
           [] \<Rightarrow> None
         | e # es \<Rightarrow>
            if e = CHR ''b'' then map_option ((#) (CHR 0x08)) (decode_string es)
            else if e = CHR ''f'' then map_option ((#) (CHR 0x0C)) (decode_string es)
            else if e = CHR ''n'' then map_option ((#) (CHR 0x0A)) (decode_string es)
            else if e = CHR ''r'' then map_option ((#) (CHR 0x0D)) (decode_string es)
            else if e = CHR ''t'' then map_option ((#) (CHR 0x09)) (decode_string es)
            else if e = CHR 0x22 \<or> e = CHR 0x5C \<or> e = CHR ''/'' then
              map_option ((#) e) (decode_string es)
            else if e = CHR ''u'' then
              (case utf16_literal_to_utf8 (ch # e # es) of
                 None \<Rightarrow> None
               | Some (bs, n) \<Rightarrow> map_option ((@) bs) (decode_string (drop (n - 2) es)))
            else None))"

definition parse_string :: "string \<Rightarrow> (string \<times> string) option" where
  "parse_string s =
     (case s of
        [] \<Rightarrow> None
      | q # cs \<Rightarrow>
         if q \<noteq> CHR 0x22 then None
         else
           (case string_literal_end cs of
              None \<Rightarrow> None
            | Some (body, rest) \<Rightarrow>
               (case decode_string body of
                  None \<Rightarrow> None
                | Some bs \<Rightarrow> Some (c_str bs, rest))))"


subsection \<open>Numbers\<close>

definition is_number_char :: "char \<Rightarrow> bool" where
  "is_number_char ch = (is_digit ch \<or> ch \<in> set ''+-eE.'')"

definition digits_value :: "string \<Rightarrow> nat" where
  "digits_value ds = foldl (\<lambda>a d. 10 * a + (byte d - 48)) 0 ds"

definition strtod_exponent :: "string \<Rightarrow> int \<times> nat" where
  "strtod_exponent s =
     (case s of
        [] \<Rightarrow> (0, 0)
      | e # r \<Rightarrow>
         if e \<noteq> CHR ''e'' \<and> e \<noteq> CHR ''E'' then (0, 0)
         else
           let signed = (r \<noteq> [] \<and> (hd r = CHR ''-'' \<or> hd r = CHR ''+''));
               ds = takeWhile is_digit (if signed then tl r else r)
           in if ds = [] then (0, 0)
              else ((if signed \<and> hd r = CHR ''-'' then - int (digits_value ds)
                     else int (digits_value ds)),
                    1 + (if signed then 1 else 0) + length ds))"

definition strtod :: "string \<Rightarrow> (real \<times> nat) option" where
  "strtod s =
     (let signed = (s \<noteq> [] \<and> (hd s = CHR ''-'' \<or> hd s = CHR ''+''));
          s1 = (if signed then tl s else s);
          ip = takeWhile is_digit s1;
          s2 = drop (length ip) s1;
          dot = (s2 \<noteq> [] \<and> hd s2 = CHR ''.'');
          fp = (if dot then takeWhile is_digit (tl s2) else [])
      in if ip = [] \<and> fp = [] then None
         else
           let used = (if signed then 1 else 0) + length ip + (if dot then 1 + length fp else 0);
               (ex, exlen) = strtod_exponent (drop used s);
               mant = real (digits_value (ip @ fp)) / 10 ^ length fp;
               mag = (if 0 \<le> ex then mant * 10 ^ nat ex else mant / 10 ^ nat (- ex))
           in Some ((if signed \<and> hd s = CHR ''-'' then - mag else mag), used + exlen))"

definition parse_number :: "string \<Rightarrow> (json \<times> string) option" where
  "parse_number s =
     (case strtod (takeWhile is_number_char (take 63 s)) of
        None \<Rightarrow> None
      | Some (v, n) \<Rightarrow> Some (JNumber v, drop n s))"

subsection \<open>Values\<close>

definition CJSON_NESTING_LIMIT :: nat where
  "CJSON_NESTING_LIMIT = 1000"

function parse_value :: "nat \<Rightarrow> string \<Rightarrow> (json \<times> string) option"
  and parse_array_items :: "nat \<Rightarrow> string \<Rightarrow> (json list \<times> string) option"
  and parse_object_items :: "nat \<Rightarrow> string \<Rightarrow> ((string \<times> json) list \<times> string) option"
where
  "parse_value depth s =
     (if take 4 s = ''null'' then Some (JNull, drop 4 s)
      else if take 5 s = ''false'' then Some (JFalse, drop 5 s)
      else if take 4 s = ''true'' then Some (JTrue, drop 4 s)
      else
        (case s of
           [] \<Rightarrow> None
         | ch # cs \<Rightarrow>
            if ch = CHR 0x22 then
              (case parse_string s of
                 None \<Rightarrow> None
               | Some (str, r) \<Rightarrow> Some (JString str, r))
            else if ch = CHR ''-'' \<or> is_digit ch then parse_number s
            else if ch = CHR ''['' then
              (if CJSON_NESTING_LIMIT \<le> depth then None
               else
                 (case skip_ws cs of
                    [] \<Rightarrow> None
                  | d # ds \<Rightarrow>
                     if d = CHR '']'' then Some (JArray [], ds)
                     else
                       (case parse_array_items (Suc depth) cs of
                          None \<Rightarrow> None
                        | Some (vs, r) \<Rightarrow> Some (JArray vs, r))))
            else if ch = CHR ''{'' then
              (if CJSON_NESTING_LIMIT \<le> depth then None
               else
                 (case skip_ws cs of
                    [] \<Rightarrow> None
                  | d # ds \<Rightarrow>
                     if d = CHR ''}'' then Some (JObject [], ds)
                     else
                       (case parse_object_items (Suc depth) cs of
                          None \<Rightarrow> None
                        | Some (kvs, r) \<Rightarrow> Some (JObject kvs, r))))
            else None))"
| "parse_array_items depth s =
     (case parse_value depth (skip_ws s) of
        None \<Rightarrow> None
      | Some (v, r) \<Rightarrow>
         (case skip_ws r of
            [] \<Rightarrow> None
          | d # ds \<Rightarrow>
             if d = CHR '','' then
               (case parse_array_items depth ds of
                  None \<Rightarrow> None
                | Some (vs, r') \<Rightarrow> Some (v # vs, r'))
             else if d = CHR '']'' then Some ([v], ds)
             else None))"
| "parse_object_items depth s =
     (case parse_string (skip_ws s) of
        None \<Rightarrow> None
      | Some (key, r0) \<Rightarrow>
         (case skip_ws r0 of
            [] \<Rightarrow> None
          | colon # r1 \<Rightarrow>
             if colon \<noteq> CHR '':'' then None
             else
               (case parse_value depth (skip_ws r1) of
                  None \<Rightarrow> None
                | Some (v, r) \<Rightarrow>
                   (case skip_ws r of
                      [] \<Rightarrow> None
                    | d # ds \<Rightarrow>
                       if d = CHR '','' then
                         (case parse_object_items depth ds of
                            None \<Rightarrow> None
                          | Some (kvs, r') \<Rightarrow> Some ((key, v) # kvs, r'))
                       else if d = CHR ''}'' then Some ([(key, v)], ds)
                       else None))))"
  by pat_completeness auto


lemma skip_ws_length: "length (skip_ws s) \<le> length s"
  by (simp add: skip_ws_def length_dropWhile_le)

lemma string_literal_end_length:
  "string_literal_end s = Some (body, rest) \<Longrightarrow> length rest < length s"
  by (induction s arbitrary: body rest rule: string_literal_end.induct)
     (fastforce split: if_splits list.splits)+

lemma parse_string_length: "parse_string s = Some (str, r) \<Longrightarrow> length r < length s"
  by (auto simp: parse_string_def split: list.splits if_splits option.splits
           dest!: string_literal_end_length)

lemma parse_number_length: "parse_number s = Some (v, r) \<Longrightarrow> length r \<le> length s"
  by (auto simp: parse_number_def split: option.splits)


lemma skip_ws_Cons_length: "skip_ws r = d # ds \<Longrightarrow> length ds < length r"
  using skip_ws_length [of r] by simp

lemma parse_length_dom:
  "parse_value_parse_array_items_parse_object_items_dom (Inl (depth, s)) \<Longrightarrow>
     parse_value depth s = Some (v, r) \<Longrightarrow> length r \<le> length s"
  "parse_value_parse_array_items_parse_object_items_dom (Inr (Inl (depth1, s1))) \<Longrightarrow>
     parse_array_items depth1 s1 = Some (vs, r1) \<Longrightarrow> length r1 \<le> length s1"
  "parse_value_parse_array_items_parse_object_items_dom (Inr (Inr (depth2, s2))) \<Longrightarrow>
     parse_object_items depth2 s2 = Some (kvs, r2) \<Longrightarrow> length r2 \<le> length s2"
proof (induction depth s and depth1 s1 and depth2 s2 arbitrary: v r and vs r1 and kvs r2
       rule: parse_value_parse_array_items_parse_object_items.pinduct)
  case (1 depth s)
  from "1.prems" "1.hyps" show ?case
    apply (simp add: parse_value.psimps split: if_splits list.splits option.splits prod.splits)
    apply (auto dest: parse_string_length parse_number_length skip_ws_Cons_length)
    apply ((drule "1.IH"(1)[rotated -1]; simp) | (drule "1.IH"(2)[rotated -1]; simp))+
    done
next
  case (2 depth s)
  from "2.prems" "2.hyps" show ?case
    apply (simp add: parse_array_items.psimps split: if_splits list.splits option.splits prod.splits)
    apply auto
    subgoal for v r ds vs'
      using "2.IH"(1) [of v r] "2.IH"(2) [of "(v, r)" v r "CHR '',''" ds vs' r1]
            skip_ws_Cons_length [of r "CHR '',''" ds] skip_ws_length [of s]
      by simp
    subgoal for v r
      using "2.IH"(1) [of v r] skip_ws_Cons_length [of r "CHR '']''" r1] skip_ws_length [of s]
      by simp
    done
next
  case (3 depth s)
  from "3.prems" "3.hyps" show ?case
    apply (simp add: parse_object_items.psimps split: if_splits list.splits option.splits prod.splits)
    apply auto
    subgoal for key r0 r1 v r ds kvs'
      using "3.IH"(1) [of "(key, r0)" key r0 "CHR '':''" r1 v r]
            "3.IH"(2) [of "(key, r0)" key r0 "CHR '':''" r1 "(v, r)" v r "CHR '',''" ds kvs' r2]
            parse_string_length [of "skip_ws s" key r0]
            skip_ws_Cons_length [of r0 "CHR '':''" r1] skip_ws_length [of r1]
            skip_ws_Cons_length [of r "CHR '',''" ds] skip_ws_length [of s]
      by simp
    subgoal for key r0 r1 v r
      using "3.IH"(1) [of "(key, r0)" key r0 "CHR '':''" r1 v r]
            parse_string_length [of "skip_ws s" key r0]
            skip_ws_Cons_length [of r0 "CHR '':''" r1] skip_ws_length [of r1]
            skip_ws_Cons_length [of r "CHR ''}''" r2] skip_ws_length [of s]
      by simp
    done
qed

termination parse_value
proof (relation "measure (\<lambda>x. case x of Inl (d, s) \<Rightarrow> 2 * length s
                                | Inr (Inl (d, s)) \<Rightarrow> 2 * length s + 1
                                | Inr (Inr (d, s)) \<Rightarrow> 2 * length s + 1)",
       goal_cases)
  case 1
  show ?case by simp
next
  case (2 depth s x21 x22 x21a x22a)
  then show ?case by simp
next
  case (3 depth s x21 x22 x21a x22a)
  then show ?case by simp
next
  case (4 depth s)
  show ?case using skip_ws_length [of s] by simp
next
  case (5 depth s x2 x y x21 x22)
  then show ?case
    using parse_length_dom(1) [of depth "skip_ws s" x y]
          skip_ws_Cons_length [of y x21 x22] skip_ws_length [of s]
    by simp
next
  case (6 depth s x2 x y x21 x22)
  then show ?case
    using parse_string_length [of "skip_ws s" x y]
          skip_ws_Cons_length [of y x21 x22] skip_ws_length [of x22] skip_ws_length [of s]
    by simp
next
  case (7 depth s x2 x y x21 x22 x2a xa ya x21a x22a)
  then show ?case
    using parse_string_length [of "skip_ws s" x y]
          skip_ws_Cons_length [of y x21 x22] skip_ws_length [of x22] skip_ws_length [of s]
          parse_length_dom(1) [of depth "skip_ws x22" xa ya]
          skip_ws_Cons_length [of ya x21a x22a]
    by simp
qed


declare parse_value.simps [simp del] parse_array_items.simps [simp del]
  parse_object_items.simps [simp del]

definition skip_utf8_bom :: "string \<Rightarrow> string" where
  "skip_utf8_bom s = (if take 3 s = [CHR 0xEF, CHR 0xBB, CHR 0xBF] then drop 3 s else s)"

definition cJSON_Parse :: "string \<Rightarrow> json option" where
  "cJSON_Parse text =
     (case parse_value 0 (skip_ws (skip_utf8_bom (c_str text))) of
        None \<Rightarrow> None
      | Some (v, r) \<Rightarrow> Some v)"

subsection \<open>Printing\<close>

text \<open>
  \<open>print_string_ptr\<close> escapes the quote, the backslash and the bytes below 32 and copies
  every other byte. \<open>print_number\<close> prints a number that equals its \<open>valueint\<close> as
  that integer; for any other number the text depends on the C library's formatting of a
  \<open>double\<close> (\<open>"%1.15g"\<close>, \<open>"%1.17g"\<close>), which is the parameter \<open>fmt\<close>.
\<close>

definition hex_digit :: "nat \<Rightarrow> char" where
  "hex_digit n = (if n < 10 then char_of (48 + n) else char_of (87 + n))"

definition print_char :: "char \<Rightarrow> string" where
  "print_char ch =
     (if ch = CHR 0x22 then [CHR 0x5C, CHR 0x22]
      else if ch = CHR 0x5C then [CHR 0x5C, CHR 0x5C]
      else if ch = CHR 0x08 then [CHR 0x5C, CHR ''b'']
      else if ch = CHR 0x0C then [CHR 0x5C, CHR ''f'']
      else if ch = CHR 0x0A then [CHR 0x5C, CHR ''n'']
      else if ch = CHR 0x0D then [CHR 0x5C, CHR ''r'']
      else if ch = CHR 0x09 then [CHR 0x5C, CHR ''t'']
      else if byte ch < 32 then
        [CHR 0x5C, CHR ''u'', CHR ''0'', CHR ''0'', hex_digit (byte ch div 16),
         hex_digit (byte ch mod 16)]
      else [ch])"

definition print_string_ptr :: "string \<Rightarrow> string" where
  "print_string_ptr s = CHR 0x22 # concat (map print_char (c_str s)) @ [CHR 0x22]"

function print_digits :: "nat \<Rightarrow> string" where
  "print_digits n =
     (if n < 10 then [char_of (48 + n)]
      else print_digits (n div 10) @ [char_of (48 + n mod 10)])"
  by pat_completeness auto
termination
  by (relation "measure id") auto

declare print_digits.simps [simp del]

definition INT_MAX :: int where
  "INT_MAX = 2147483647"
definition INT_MIN :: int where
  "INT_MIN = - 2147483648"

definition valueint :: "real \<Rightarrow> int" where
  "valueint d =
     (if real_of_int INT_MAX \<le> d then INT_MAX
      else if d \<le> real_of_int INT_MIN then INT_MIN
      else if 0 \<le> d then \<lfloor>d\<rfloor> else \<lceil>d\<rceil>)"

definition print_number :: "(real \<Rightarrow> string) \<Rightarrow> real \<Rightarrow> string" where
  "print_number fmt d =
     (if d = real_of_int (valueint d) then
        (if valueint d < 0 then CHR ''-'' # print_digits (nat (- valueint d))
         else print_digits (nat (valueint d)))
      else fmt d)"

fun join_commas :: "string list \<Rightarrow> string" where
  "join_commas [] = []"
| "join_commas [x] = x"
| "join_commas (x # y # ys) = x @ CHR '','' # join_commas (y # ys)"

fun print_value :: "(real \<Rightarrow> string) \<Rightarrow> json \<Rightarrow> string" where
  "print_value fmt JNull = ''null''"
| "print_value fmt JFalse = ''false''"
| "print_value fmt JTrue = ''true''"
| "print_value fmt (JNumber d) = print_number fmt d"
| "print_value fmt (JString str) = print_string_ptr str"
| "print_value fmt (JArray vs) =
     CHR ''['' # join_commas (map (print_value fmt) vs) @ '']''"
| "print_value fmt (JObject kvs) =
     CHR ''{'' # join_commas (map (\<lambda>(k, v). print_string_ptr k @ CHR '':'' # print_value fmt v) kvs)
       @ ''}''"

definition cJSON_PrintUnformatted :: "(real \<Rightarrow> string) \<Rightarrow> json \<Rightarrow> string" where
  "cJSON_PrintUnformatted fmt v = print_value fmt v"

subsection \<open>Building and reading documents\<close>

definition cJSON_CreateString :: "string \<Rightarrow> json" where
  "cJSON_CreateString s = JString (c_str s)"

definition cJSON_AddItemToObject :: "json \<Rightarrow> string \<Rightarrow> json \<Rightarrow> json" where
  "cJSON_AddItemToObject obj name item =
     (case obj of JObject kvs \<Rightarrow> JObject (kvs @ [(c_str name, item)]) | _ \<Rightarrow> obj)"

definition cJSON_AddStringToObject :: "json \<Rightarrow> string \<Rightarrow> string \<Rightarrow> json" where
  "cJSON_AddStringToObject obj name s = cJSON_AddItemToObject obj name (cJSON_CreateString s)"

definition cJSON_AddNumberToObject :: "json \<Rightarrow> string \<Rightarrow> real \<Rightarrow> json" where
  "cJSON_AddNumberToObject obj name d = cJSON_AddItemToObject obj name (JNumber d)"

definition cJSON_AddBoolToObject :: "json \<Rightarrow> string \<Rightarrow> bool \<Rightarrow> json" where
  "cJSON_AddBoolToObject obj name b =
     cJSON_AddItemToObject obj name (if b then JTrue else JFalse)"

definition cJSON_AddItemToArray :: "json \<Rightarrow> json \<Rightarrow> json" where
  "cJSON_AddItemToArray arr item =
     (case arr of JArray vs \<Rightarrow> JArray (vs @ [item]) | _ \<Rightarrow> arr)"

definition tolower_c :: "char \<Rightarrow> char" where
  "tolower_c ch = (if 65 \<le> byte ch \<and> byte ch \<le> 90 then char_of (byte ch + 32) else ch)"

definition case_insensitive_equal :: "string \<Rightarrow> string \<Rightarrow> bool" where
  "case_insensitive_equal a b = (map tolower_c a = map tolower_c b)"

fun get_object_item :: "(string \<times> json) list \<Rightarrow> string \<Rightarrow> json option" where
  "get_object_item [] name = None"
| "get_object_item ((k, v) # kvs) name =
     (if case_insensitive_equal name k then Some v else get_object_item kvs name)"

text \<open>
  \<open>cJSON_GetObjectItem\<close> compares names without regard to case and returns the first
  match; the elements of an array have no name, and other values have no children.
\<close>

definition cJSON_GetObjectItem :: "json \<Rightarrow> string \<Rightarrow> json option" where
  "cJSON_GetObjectItem obj name =
     (case obj of JObject kvs \<Rightarrow> get_object_item kvs (c_str name) | _ \<Rightarrow> None)"

definition cJSON_IsArray :: "json \<Rightarrow> bool" where
  "cJSON_IsArray v = (case v of JArray _ \<Rightarrow> True | _ \<Rightarrow> False)"

definition cJSON_IsString :: "json \<Rightarrow> bool" where
  "cJSON_IsString v = (case v of JString _ \<Rightarrow> True | _ \<Rightarrow> False)"

section \<open>The conversation object (chatgpt.h)\<close>

datatype ChatGPT_ErrorCode =
    CHATGPT_OK
  | CHATGPT_ERR_OOM
  | CHATGPT_ERR_INVALID_ARG
  | CHATGPT_ERR_HTTP
  | CHATGPT_ERR_JSON_PARSE
  | CHATGPT_ERR_API
  | CHATGPT_ERR_STREAM
  | CHATGPT_ERR_STATE

record ChatGPTMessage =
  role :: string
  content :: string

record ChatGPTUsage =
  prompt_tokens :: int
  completion_tokens :: int
  total_tokens :: int

text \<open>
  The \<open>double\<close> fields are reals and the \<open>int\<close> fields are integers: no claim below
  depends on rounding or on overflow. The dynamic array \<open>messages\<close> with
  \<open>message_count\<close> live entries is a list; \<open>last_reply\<close> is \<open>None\<close> for a NULL
  pointer; \<open>last_error\<close> is the content of the 512-byte buffer.
\<close>

record ChatGPTConversation =
  api_key :: string
  model :: string
  temperature :: real
  top_p :: real
  max_tokens :: int
  presence_penalty :: real
  frequency_penalty :: real
  base_url :: string
  use_streaming :: int
  context_messages :: int
  max_retries :: int
  retry_delay_ms :: int
  messages :: "ChatGPTMessage list"
  last_usage :: ChatGPTUsage
  last_reply :: "string option"
  last_error :: string
  last_code :: ChatGPT_ErrorCode
  last_http_code :: int

definition DEFAULT_MODEL :: string where
  "DEFAULT_MODEL = ''gpt-4o-mini''"

text \<open>
  \<open>chatgpt_conversation_new\<close>: the key falls back to the process-wide key \<open>g_api_key\<close>;
  with neither there is no conversation. \<open>conversation_init\<close> is the body after the
  key is known: \<open>calloc\<close> zeroes what is not set.
\<close>

definition conversation_init :: "string \<Rightarrow> string option \<Rightarrow> ChatGPTConversation" where
  "conversation_init k mdl = \<lparr>
     api_key = dup_str k,
     model = dup_str (case mdl of None \<Rightarrow> DEFAULT_MODEL | Some m \<Rightarrow> m),
     temperature = 7 / 10,
     top_p = 1,
     max_tokens = 0,
     presence_penalty = 0,
     frequency_penalty = 0,
     base_url = dup_str ''https://api.openai.com'',
     use_streaming = 1,
     context_messages = 5,
     max_retries = 3,
     retry_delay_ms = 1000,
     messages = [],
     last_usage = \<lparr>prompt_tokens = 0, completion_tokens = 0, total_tokens = 0\<rparr>,
     last_reply = None,
     last_error = [],
     last_code = CHATGPT_OK,
     last_http_code = 0 \<rparr>"

definition chatgpt_conversation_new ::
  "string option \<Rightarrow> string option \<Rightarrow> string option \<Rightarrow> ChatGPTConversation option" where
  "chatgpt_conversation_new g_api_key key mdl =
     (case (case key of None \<Rightarrow> g_api_key | Some k \<Rightarrow> Some k) of
        None \<Rightarrow> None
      | Some k \<Rightarrow> Some (conversation_init k mdl))"

subsection \<open>Error state\<close>

definition set_error ::
  "ChatGPTConversation \<Rightarrow> ChatGPT_ErrorCode \<Rightarrow> string \<Rightarrow> ChatGPTConversation" where
  "set_error c code msg = c\<lparr>last_code := code, last_error := take 511 (c_str msg)\<rparr>"

definition chatgpt_clear_error :: "ChatGPTConversation \<Rightarrow> ChatGPTConversation" where
  "chatgpt_clear_error c = c\<lparr>last_error := [], last_code := CHATGPT_OK, last_http_code := 0\<rparr>"

definition chatgpt_last_error :: "ChatGPTConversation \<Rightarrow> string" where
  "chatgpt_last_error c = last_error c"

definition chatgpt_last_code :: "ChatGPTConversation \<Rightarrow> ChatGPT_ErrorCode" where
  "chatgpt_last_code c = last_code c"

definition chatgpt_last_http_code :: "ChatGPTConversation \<Rightarrow> int" where
  "chatgpt_last_http_code c = last_http_code c"

definition chatgpt_last_reply :: "ChatGPTConversation \<Rightarrow> string option" where
  "chatgpt_last_reply c = last_reply c"

subsection \<open>Configuration setters\<close>

definition chatgpt_set_max_tokens ::
  "ChatGPTConversation \<Rightarrow> int \<Rightarrow> ChatGPT_ErrorCode \<times> ChatGPTConversation" where
  "chatgpt_set_max_tokens c n =
     (if n < 0 then (CHATGPT_ERR_INVALID_ARG, c)
      else (CHATGPT_OK, c\<lparr>max_tokens := n\<rparr>))"

definition chatgpt_set_context_messages ::
  "ChatGPTConversation \<Rightarrow> int \<Rightarrow> ChatGPT_ErrorCode \<times> ChatGPTConversation" where
  "chatgpt_set_context_messages c n =
     (if n < 0 then (CHATGPT_ERR_INVALID_ARG, c)
      else (CHATGPT_OK, c\<lparr>context_messages := n\<rparr>))"

definition chatgpt_set_retry_config ::
  "ChatGPTConversation \<Rightarrow> int \<Rightarrow> int \<Rightarrow> ChatGPT_ErrorCode \<times> ChatGPTConversation" where
  "chatgpt_set_retry_config c retries delay_ms =
     (if retries < 0 \<or> delay_ms < 0 then (CHATGPT_ERR_INVALID_ARG, c)
      else (CHATGPT_OK, c\<lparr>max_retries := retries, retry_delay_ms := delay_ms\<rparr>))"

subsection \<open>Messages\<close>

definition chatgpt_add_message ::
  "ChatGPTConversation \<Rightarrow> string \<Rightarrow> string \<Rightarrow> ChatGPT_ErrorCode \<times> ChatGPTConversation" where
  "chatgpt_add_message c r t =
     (CHATGPT_OK, c\<lparr>messages := messages c @ [\<lparr>role = dup_str r, content = dup_str t\<rparr>]\<rparr>)"

definition chatgpt_add_user ::
  "ChatGPTConversation \<Rightarrow> string \<Rightarrow> ChatGPT_ErrorCode \<times> ChatGPTConversation" where
  "chatgpt_add_user c t = chatgpt_add_message c ''user'' t"

definition chatgpt_add_system ::
  "ChatGPTConversation \<Rightarrow> string \<Rightarrow> ChatGPT_ErrorCode \<times> ChatGPTConversation" where
  "chatgpt_add_system c t = chatgpt_add_message c ''system'' t"

definition chatgpt_add_assistant ::
  "ChatGPTConversation \<Rightarrow> string \<Rightarrow> ChatGPT_ErrorCode \<times> ChatGPTConversation" where
  "chatgpt_add_assistant c t = chatgpt_add_message c ''assistant'' t"

definition chatgpt_clear_messages ::
  "ChatGPTConversation \<Rightarrow> ChatGPT_ErrorCode \<times> ChatGPTConversation" where
  "chatgpt_clear_messages c = (CHATGPT_OK, c\<lparr>messages := []\<rparr>)"

definition chatgpt_get_message_count :: "ChatGPTConversation \<Rightarrow> nat" where
  "chatgpt_get_message_count c = length (messages c)"

section \<open>Serialising the conversation (chatgpt.c)\<close>

text \<open>
  \<open>message_object\<close> is the body of the loop shared by \<open>chatgpt_build_messages_json\<close>
  and \<open>build_request_body\<close>; \<open>messages_array\<close> is the loop. A stored message has a
  role and a content (\<open>chatgpt_add_message\<close> refuses NULL and copies both), so the
  \<open>"user"\<close> and \<open>""\<close> fallbacks of \<open>chatgpt_build_messages_json\<close> are never taken.
\<close>

definition message_object :: "ChatGPTMessage \<Rightarrow> json" where
  "message_object m =
     cJSON_AddStringToObject (cJSON_AddStringToObject (JObject []) ''role'' (role m))
       ''content'' (content m)"

definition messages_array :: "ChatGPTMessage list \<Rightarrow> json" where
  "messages_array ms = foldl (\<lambda>arr m. cJSON_AddItemToArray arr (message_object m)) (JArray []) ms"

text \<open>
  \<open>fmt\<close> is the C library's formatting of a non-integral \<open>double\<close> (see
  \<open>print_number\<close>); a message array holds no number.
\<close>

definition chatgpt_build_messages_json :: "(real \<Rightarrow> string) \<Rightarrow> ChatGPTConversation \<Rightarrow> string" where
  "chatgpt_build_messages_json fmt c = cJSON_PrintUnformatted fmt (messages_array (messages c))"

text \<open>
  \<open>build_request_body\<close>: the document \<open>root\<close> that the function prints with
  \<open>cJSON_PrintUnformatted\<close> and returns. The loop runs over all \<open>message_count\<close>
  entries; \<open>context_messages\<close> is not read.
\<close>

definition build_request_body :: "ChatGPTConversation \<Rightarrow> bool \<Rightarrow> json" where
  "build_request_body c stream =
     (let doc = cJSON_AddStringToObject (JObject []) ''model'' (model c);
          doc = cJSON_AddItemToObject doc ''messages'' (messages_array (messages c));
          doc = cJSON_AddNumberToObject doc ''temperature'' (temperature c);
          doc = cJSON_AddNumberToObject doc ''top_p'' (top_p c);
          doc = (if presence_penalty c \<noteq> 0
                  then cJSON_AddNumberToObject doc ''presence_penalty'' (presence_penalty c)
                  else doc);
          doc = (if frequency_penalty c \<noteq> 0
                  then cJSON_AddNumberToObject doc ''frequency_penalty'' (frequency_penalty c)
                  else doc);
          doc = (if 0 < max_tokens c
                  then cJSON_AddNumberToObject doc ''max_tokens'' (real_of_int (max_tokens c))
                  else doc);
          doc = (if stream then cJSON_AddBoolToObject doc ''stream'' True else doc)
      in doc)"

section \<open>Persistence\<close>

text \<open>
  The file system: \<open>contents\<close> gives the bytes of each readable file (\<open>fopen(path, "r")\<close>
  fails where it is \<open>None\<close>), \<open>writable\<close> says where \<open>fopen(path, "w")\<close> succeeds.
  \<open>fputs\<close> writes a C string.
\<close>

record filesystem =
  contents :: "string \<Rightarrow> string option"
  writable :: "string \<Rightarrow> bool"

definition chatgpt_save_conversation ::
  "(real \<Rightarrow> string) \<Rightarrow> ChatGPTConversation \<Rightarrow> filesystem \<Rightarrow> string
     \<Rightarrow> ChatGPT_ErrorCode \<times> filesystem" where
  "chatgpt_save_conversation fmt c fs path =
     (let j = chatgpt_build_messages_json fmt c
      in if \<not> writable fs path then (CHATGPT_ERR_HTTP, fs)
         else (CHATGPT_OK, fs\<lparr>contents := (contents fs)(path := Some (c_str j))\<rparr>))"

text \<open>
  \<open>load_entry\<close> is the body of the \<open>cJSON_ArrayForEach\<close> loop of
  \<open>chatgpt_load_conversation\<close>: an element without a string \<open>role\<close> and a string
  \<open>content\<close> is skipped, and the result of \<open>chatgpt_add_message\<close> is not looked
  at. \<open>ftell\<close> on the opened file is taken to succeed, so of the early returns of
  \<open>chatgpt_load_conversation\<close> the model has those for \<open>fopen\<close>, for the parse
  and for a document that is not an array; all of them come before
  \<open>chatgpt_clear_messages\<close>.
\<close>

definition load_entry :: "ChatGPTConversation \<Rightarrow> json \<Rightarrow> ChatGPTConversation" where
  "load_entry c it =
     (case (cJSON_GetObjectItem it ''role'', cJSON_GetObjectItem it ''content'') of
        (Some (JString r), Some (JString t)) \<Rightarrow> snd (chatgpt_add_message c r t)
      | _ \<Rightarrow> c)"

definition chatgpt_load_conversation ::
  "ChatGPTConversation \<Rightarrow> filesystem \<Rightarrow> string \<Rightarrow> ChatGPT_ErrorCode \<times> ChatGPTConversation" where
  "chatgpt_load_conversation c fs path =
     (case contents fs path of
        None \<Rightarrow> (CHATGPT_ERR_HTTP, c)
      | Some buf \<Rightarrow>
         (case cJSON_Parse buf of
            None \<Rightarrow> (CHATGPT_ERR_JSON_PARSE, c)
          | Some arr \<Rightarrow>
             (case arr of
                JArray items \<Rightarrow> (CHATGPT_OK, foldl load_entry (snd (chatgpt_clear_messages c)) items)
              | _ \<Rightarrow> (CHATGPT_ERR_JSON_PARSE, c))))"

section \<open>The HTTP exchange\<close>

text \<open>
  One \<open>curl_easy_perform\<close>: its result code (with the text \<open>curl_easy_strerror\<close> gives
  for a failure), the status line of the response, and the byte ranges handed to the write
  callback, in order. A transfer that fails may have delivered some chunks already.
  The network is a script of exchanges, one per \<open>curl_easy_perform\<close>, with a count of
  those performed and the request documents posted.
\<close>

datatype CURLcode = CURLE_OK | CURLE_FAILED string

record http_exchange =
  curl_code :: CURLcode
  http_status :: int
  received :: "string list"

record network =
  script :: "nat \<Rightarrow> http_exchange"
  performed :: nat
  posted :: "json list"

definition curl_easy_perform :: "network \<Rightarrow> json \<Rightarrow> http_exchange \<times> network" where
  "curl_easy_perform net body =
     (script net (performed net),
      net\<lparr>performed := Suc (performed net), posted := posted net @ [body]\<rparr>)"

subsection \<open>Buffered completion\<close>

text \<open>\<open>write_cb\<close> appends the chunk to the buffer \<open>w\<close> (\<open>None\<close> while \<open>w.d\<close> is NULL).\<close>

definition write_cb :: "string option \<Rightarrow> string \<Rightarrow> string option" where
  "write_cb w chunk = Some ((case w of None \<Rightarrow> [] | Some d \<Rightarrow> d) @ chunk)"

definition usage_field :: "json \<Rightarrow> string \<Rightarrow> int \<Rightarrow> int" where
  "usage_field usage name old =
     (case cJSON_GetObjectItem usage name of Some (JNumber d) \<Rightarrow> valueint d | _ \<Rightarrow> old)"

definition extract_usage :: "json \<Rightarrow> ChatGPTUsage \<Rightarrow> ChatGPTUsage" where
  "extract_usage doc u =
     (case cJSON_GetObjectItem doc ''usage'' of
        None \<Rightarrow> u
      | Some usage \<Rightarrow>
         \<lparr>prompt_tokens = usage_field usage ''prompt_tokens'' (prompt_tokens u),
          completion_tokens = usage_field usage ''completion_tokens'' (completion_tokens u),
          total_tokens = usage_field usage ''total_tokens'' (total_tokens u)\<rparr>)"

text \<open>
  \<open>chatgpt_chat_complete\<close> returns the reply (\<open>None\<close> for NULL), the conversation and
  the network after the call. There is one \<open>curl_easy_perform\<close>; \<open>max_retries\<close>,
  \<open>retry_delay_ms\<close> and the status of the response are not read.
\<close>

definition chatgpt_chat_complete ::
  "ChatGPTConversation \<Rightarrow> network \<Rightarrow> string option \<times> ChatGPTConversation \<times> network" where
  "chatgpt_chat_complete c0 net =
     (let c = chatgpt_clear_error c0;
          body = build_request_body c False;
          (ex, net') = curl_easy_perform net body;
          w = foldl write_cb None (received ex)
      in case curl_code ex of
           CURLE_FAILED msg \<Rightarrow> (None, set_error c CHATGPT_ERR_HTTP msg, net')
         | CURLE_OK \<Rightarrow>
            (case (case w of None \<Rightarrow> None | Some d \<Rightarrow> cJSON_Parse d) of
               None \<Rightarrow>
                 (None, set_error c CHATGPT_ERR_JSON_PARSE ''Failed to parse response JSON'', net')
             | Some doc \<Rightarrow>
                (case cJSON_GetObjectItem doc ''error'' of
                   Some err \<Rightarrow>
                     (None,
                      set_error c CHATGPT_ERR_API
                        (case cJSON_GetObjectItem err ''message'' of
                           Some (JString m) \<Rightarrow> m
                         | _ \<Rightarrow> ''API returned error''),
                      net')
                 | None \<Rightarrow>
                    (case cJSON_GetObjectItem doc ''choices'' of
                       Some (JArray (choice0 # others)) \<Rightarrow>
                         (case (case cJSON_GetObjectItem choice0 ''message'' of
                                  None \<Rightarrow> None
                                | Some msg \<Rightarrow> cJSON_GetObjectItem msg ''content'') of
                            Some (JString text) \<Rightarrow>
                              (Some (dup_str text),
                               c\<lparr>last_reply := Some (dup_str text),
                                 last_usage := extract_usage doc (last_usage c)\<rparr>,
                               net')
                          | _ \<Rightarrow>
                              (None,
                               set_error c CHATGPT_ERR_JSON_PARSE ''No content in response message'',
                               net'))
                     | _ \<Rightarrow>
                         (None, set_error c CHATGPT_ERR_JSON_PARSE ''No choices in response'',
                          net')))))"

subsection \<open>Streaming completion\<close>

text \<open>
  \<open>struct stream_ctx\<close>: the caller's callback (\<open>None\<close> for NULL) with its user data,
  and the accumulated response (\<open>None\<close> while \<open>acc\<close> is NULL; \<open>len\<close> is its length).
  The callback acts on the caller's state through \<open>ud\<close>, so it is a function of the
  delta and that state. The context has no other field: nothing of a chunk is kept for
  the next invocation.
\<close>

record 'u stream_ctx =
  cb :: "(string \<Rightarrow> 'u \<Rightarrow> 'u) option"
  ud :: 'u
  acc :: "string option"

definition stream_delta :: "json \<Rightarrow> string option" where
  "stream_delta doc =
     (case cJSON_GetObjectItem doc ''choices'' of
        Some (JArray (choice0 # others)) \<Rightarrow>
          (case cJSON_GetObjectItem choice0 ''delta'' of
             None \<Rightarrow> None
           | Some delta \<Rightarrow>
              (case cJSON_GetObjectItem delta ''content'' of
                 Some (JString text) \<Rightarrow> Some text
               | _ \<Rightarrow> None))
      | _ \<Rightarrow> None)"

definition emit_delta :: "'u stream_ctx \<Rightarrow> string \<Rightarrow> 'u stream_ctx" where
  "emit_delta ctx text =
     ctx\<lparr>ud := (case cb ctx of None \<Rightarrow> ud ctx | Some f \<Rightarrow> f text (ud ctx)),
         acc := Some ((case acc ctx of None \<Rightarrow> [] | Some a \<Rightarrow> a) @ text)\<rparr>"

text \<open>
  \<open>stream_line\<close> is the body of the line loop of \<open>stream_cb\<close> for the segment
  \<open>ptr[i..j)\<close>; \<open>None\<close> is the \<open>return tot\<close> at the end marker.
\<close>

definition stream_line :: "'u stream_ctx \<Rightarrow> string \<Rightarrow> 'u stream_ctx option" where
  "stream_line ctx seg =
     (if 5 < length seg \<and> take 5 seg = ''data:'' then
        (let line = c_str (dropWhile (\<lambda>ch. ch = CHR '' '') (drop 5 seg))
         in if line = ''[DONE]'' then None
            else
              (case cJSON_Parse line of
                 None \<Rightarrow> Some ctx
               | Some doc \<Rightarrow>
                  (case stream_delta doc of
                     None \<Rightarrow> Some ctx
                   | Some text \<Rightarrow> Some (emit_delta ctx text))))
      else Some ctx)"

function stream_cb :: "'u stream_ctx \<Rightarrow> string \<Rightarrow> 'u stream_ctx" where
  "stream_cb ctx s =
     (if s = [] then ctx
      else
        (case stream_line ctx (takeWhile (\<lambda>ch. ch \<noteq> CHR 0x0A) s) of
           None \<Rightarrow> ctx
         | Some ctx' \<Rightarrow>
            stream_cb ctx' (drop (Suc (length (takeWhile (\<lambda>ch. ch \<noteq> CHR 0x0A) s))) s)))"
  by pat_completeness auto
termination
  by (relation "measure (\<lambda>(ctx, s). length s)") auto

declare stream_cb.simps [simp del]

text \<open>
  \<open>chatgpt_chat_complete_stream\<close> returns the result code, the conversation, the
  caller's state after the callbacks, what was stored through \<open>full_out\<close> (\<open>None\<close> when
  nothing was stored, \<open>Some None\<close> for a NULL pointer) and the network. \<open>full_out\<close> says
  whether the caller passed a destination.
\<close>

definition chatgpt_chat_complete_stream ::
  "ChatGPTConversation \<Rightarrow> (string \<Rightarrow> 'u \<Rightarrow> 'u) option \<Rightarrow> 'u \<Rightarrow> bool \<Rightarrow> network
     \<Rightarrow> ChatGPT_ErrorCode \<times> ChatGPTConversation \<times> 'u \<times> string option option \<times> network" where
  "chatgpt_chat_complete_stream c0 callback user_data full_out net =
     (let c = chatgpt_clear_error c0;
          body = build_request_body c True;
          (ex, net') = curl_easy_perform net body;
          ctx = foldl stream_cb \<lparr>cb = callback, ud = user_data, acc = None\<rparr> (received ex)
      in case curl_code ex of
           CURLE_FAILED msg \<Rightarrow>
             (CHATGPT_ERR_STREAM, set_error c CHATGPT_ERR_STREAM msg, ud ctx, None, net')
         | CURLE_OK \<Rightarrow>
             if full_out then
               (CHATGPT_OK, c\<lparr>last_reply := map_option dup_str (acc ctx)\<rparr>, ud ctx,
                Some (acc ctx), net')
             else (CHATGPT_OK, c, ud ctx, None, net'))"

section \<open>Notions used in the statements\<close>

text \<open>
  A sink that records the deltas it is given, in order; \<open>stream_deltas\<close> is what such
  a sink has received after the chunks of a response went through \<open>stream_cb\<close>, and
  \<open>stream_text\<close> is their concatenation (\<open>None\<close> when there was no delta, as the
  accumulator is NULL then).
\<close>

definition recorder :: "string \<Rightarrow> string list \<Rightarrow> string list" where
  "recorder delta seen = seen @ [delta]"



text \<open>
  Every string of a document, member names included, is a C string; and the same for the
  messages of a conversation, which \<open>chatgpt.c\<close> holds as \<open>char *\<close>.
\<close>

fun c_strings_json :: "json \<Rightarrow> bool" where
  "c_strings_json (JString s) = is_c_string s"
| "c_strings_json (JArray vs) = list_all c_strings_json vs"
| "c_strings_json (JObject kvs) =
     list_all (\<lambda>kv. is_c_string (fst kv) \<and> c_strings_json (snd kv)) kvs"
| "c_strings_json v = True"

definition c_string_messages :: "ChatGPTMessage list \<Rightarrow> bool" where
  "c_string_messages ms = list_all (\<lambda>m. is_c_string (role m) \<and> is_c_string (content m)) ms"

section \<open>Scenarios\<close>

definition error_with_choices :: http_exchange where
  \<open>error_with_choices =
     \<lparr>curl_code = CURLE_OK, http_status = 200,
      received = [''{"error":{"message":"boom"},'',
                  ''"choices":[{"message":{"content":"hi"}}]}'']\<rparr>\<close>

definition replay :: "http_exchange \<Rightarrow> network" where
  "replay ex = \<lparr>script = (\<lambda>n. ex), performed = 0, posted = []\<rparr>"

definition disk :: "string option \<Rightarrow> filesystem" where
  "disk file = \<lparr>contents = (\<lambda>p. if p = ''chat.json'' then file else None),
                 writable = (\<lambda>p. True)\<rparr>"

definition one_message :: ChatGPTConversation where
  "one_message = snd (chatgpt_add_user (conversation_init ''sk-test'' None) ''keep me'')"

definition broken_stream :: http_exchange where
  \<open>broken_stream =
     \<lparr>curl_code = CURLE_FAILED ''Transferred a partial file'', http_status = 200,
      received = [''data: {"choices":[{"delta":{"content":"Hel"}}]}'' @ [CHR 0x0A]]\<rparr>\<close>

definition windowing_scenario :: ChatGPTConversation where
  "windowing_scenario =
     snd (chatgpt_add_user
       (snd (chatgpt_add_assistant
         (snd (chatgpt_add_user
           (snd (chatgpt_add_system
             (snd (chatgpt_set_context_messages (conversation_init ''sk-test'' None) 1))
             ''sys''))
           ''hi''))
         ''yo''))
       ''now'')"

definition connection_refused :: http_exchange where
  "connection_refused =
     \<lparr>curl_code = CURLE_FAILED ''Couldn't connect to server'', http_status = 0, received = []\<rparr>"

definition good_reply :: http_exchange where
  \<open>good_reply =
     \<lparr>curl_code = CURLE_OK, http_status = 200,
      received = [''{"choices":[{"message":{"content":"hi"}}]}'']\<rparr>\<close>

definition flaky :: network where
  "flaky = \<lparr>script = (\<lambda>n. if n = 0 then connection_refused else good_reply),
             performed = 0, posted = []\<rparr>"

definition rate_limited :: http_exchange where
  \<open>rate_limited =
     \<lparr>curl_code = CURLE_OK, http_status = 429,
      received = [''{"error":{"message":"Rate limit reached"}}'']\<rparr>\<close>


definition hel_line :: string where
  \<open>hel_line = ''data: {"choices":[{"delta":{"content":"Hel"}}]}''\<close>

definition recording :: "string list stream_ctx" where
  "recording = \<lparr>cb = Some recorder, ud = [], acc = None\<rparr>"

definition tricky :: ChatGPTConversation where
  \<open>tricky =
     snd (chatgpt_add_assistant
       (snd (chatgpt_add_user
         (snd (chatgpt_add_system (conversation_init ''sk-test'' None) ''''))
         (''say "hi"'' @ [CHR 0x5C, CHR 0x0A, CHR 0x01, CHR 0xC3, CHR 0xA9])))
       ''ok'')\<close>

definition no_format :: "real \<Rightarrow> string" where
  "no_format d = []"

section \<open>Setters reject out-of-range values\<close>

text \<open>
  Claim C9. For every conversation and every negative \<open>n\<close>, setting \<open>maxTokens\<close> to
  \<open>n\<close> returns InvalidArgument and leaves the stored \<open>maxTokens\<close> (and the whole
  conversation) as it was.
\<close>

theorem set_max_tokens_negative_rejected:
  "n < 0 \<Longrightarrow>
     fst (chatgpt_set_max_tokens c n) = CHATGPT_ERR_INVALID_ARG \<and>
     max_tokens (snd (chatgpt_set_max_tokens c n)) = max_tokens c \<and>
     snd (chatgpt_set_max_tokens c n) = c"
  by (simp add: chatgpt_set_max_tokens_def)

theorem set_max_tokens_negative_rejected_witness:
  "(- 5 :: int) < 0 \<and>
   fst (chatgpt_set_max_tokens (conversation_init ''sk'' None\<lparr>max_tokens := 150\<rparr>) (- 5))
     = CHATGPT_ERR_INVALID_ARG \<and>
   max_tokens (snd (chatgpt_set_max_tokens (conversation_init ''sk'' None\<lparr>max_tokens := 150\<rparr>) (- 5)))
     = 150"
  using set_max_tokens_negative_rejected
    [of "- 5" "conversation_init ''sk'' None\<lparr>max_tokens := 150\<rparr>"]
  by simp

section \<open>The request body\<close>

text \<open>
  Claim C1 says that the request holds only the last \<open>contextMessages\<close> messages. On the
  scenario of the claim (\<open>contextMessages = 1\<close>, then system "sys", user "hi", assistant
  "yo", user "now") the \<open>messages\<close> array of the built request holds all four messages,
  not the single entry for "now".
\<close>

theorem request_carries_all_messages:
  "context_messages windowing_scenario = 1 \<and>
   cJSON_GetObjectItem (build_request_body windowing_scenario False) ''messages'' =
     Some (JArray
       [JObject [(''role'', JString ''system''), (''content'', JString ''sys'')],
        JObject [(''role'', JString ''user''), (''content'', JString ''hi'')],
        JObject [(''role'', JString ''assistant''), (''content'', JString ''yo'')],
        JObject [(''role'', JString ''user''), (''content'', JString ''now'')]])"
proof -
  have "context_messages windowing_scenario = 1"
    by (simp add: windowing_scenario_def chatgpt_add_user_def chatgpt_add_assistant_def
        chatgpt_add_system_def chatgpt_add_message_def chatgpt_set_context_messages_def
        conversation_init_def)
  moreover have "cJSON_GetObjectItem (build_request_body windowing_scenario False) ''messages'' =
     Some (JArray
       [JObject [(''role'', JString ''system''), (''content'', JString ''sys'')],
        JObject [(''role'', JString ''user''), (''content'', JString ''hi'')],
        JObject [(''role'', JString ''assistant''), (''content'', JString ''yo'')],
        JObject [(''role'', JString ''user''), (''content'', JString ''now'')]])"
    by code_simp
  ultimately show ?thesis by simp
qed

section \<open>Facts about the JSON library\<close>

subsection \<open>A printed string parses back\<close>

lemma byte_char_of: "n < 256 \<Longrightarrow> byte (char_of n) = n"
  by (simp add: byte_def)

lemma char_of_byte: "char_of (byte ch) = ch"
  by (simp add: byte_def)

lemma byte_hex_digit:
  "n < 16 \<Longrightarrow> byte (hex_digit n) = (if n < 10 then 48 + n else 87 + n)"
  by (simp add: hex_digit_def byte_char_of)

lemma hex_value_hex_digit: "n < 16 \<Longrightarrow> hex_value (hex_digit n) = Some n"
  by (simp add: hex_value_def byte_hex_digit)

lemma byte_eq_iff: "(a = b) = (byte a = byte b)"
  by (auto simp: byte_def)

lemma hex_digit_plain:
  "n < 16 \<Longrightarrow> hex_digit n \<noteq> CHR 0x22 \<and> hex_digit n \<noteq> CHR 0x5C"
  by (simp add: byte_eq_iff [of "hex_digit n"] byte_hex_digit) (simp add: byte_def)

lemma hex_value_zero: "hex_value (CHR ''0'') = Some 0"
  by (simp add: hex_value_def byte_def)

lemma parse_hex4_low:
  assumes "b < 256"
  shows "parse_hex4 (CHR ''0'') (CHR ''0'') (hex_digit (b div 16)) (hex_digit (b mod 16)) = b"
proof -
  have hi: "b div 16 < 16" using assms by (simp add: div_less_iff_less_mult)
  have lo: "b mod 16 < 16" by simp
  show ?thesis
    by (simp add: parse_hex4_def hex_value_zero hex_value_hex_digit [OF hi]
          hex_value_hex_digit [OF lo])
qed

lemma byte_less_256: "byte ch < 256"
  by (simp add: byte_def)

lemma utf16_literal_low:
  assumes "byte ch < 32"
  shows "utf16_literal_to_utf8
           (CHR 0x5C # CHR ''u'' # CHR ''0'' # CHR ''0'' # hex_digit (byte ch div 16)
              # hex_digit (byte ch mod 16) # tail) = Some ([ch], 6)"
proof -
  have "byte ch < 256" by (rule byte_less_256)
  then have "parse_hex4 (CHR ''0'') (CHR ''0'') (hex_digit (byte ch div 16))
               (hex_digit (byte ch mod 16)) = byte ch"
    by (rule parse_hex4_low)
  then show ?thesis
    using assms by (simp add: utf16_literal_to_utf8_def utf8_encode_def char_of_byte)
qed

lemma print_char_shape:
  "(\<exists>e. print_char ch = [CHR 0x5C, e] \<and>
        e \<in> set [CHR 0x22, CHR 0x5C, CHR ''b'', CHR ''f'', CHR ''n'', CHR ''r'', CHR ''t''] \<and>
        decode_string (CHR 0x5C # e # tail) = map_option ((#) ch) (decode_string tail))
   \<or> (print_char ch = [CHR 0x5C, CHR ''u'', CHR ''0'', CHR ''0'',
          hex_digit (byte ch div 16), hex_digit (byte ch mod 16)] \<and> byte ch < 32)
   \<or> (print_char ch = [ch] \<and> ch \<noteq> CHR 0x22 \<and> ch \<noteq> CHR 0x5C)"
  by (simp add: print_char_def)

lemma string_literal_end_print_char:
  "string_literal_end (print_char ch @ rest) =
     map_option (\<lambda>(body, r). (print_char ch @ body, r)) (string_literal_end rest)"
proof -
  have lo: "byte ch div 16 < 16" if "byte ch < 32"
    using that by simp
  have hi: "byte ch mod 16 < 16" by simp
  from print_char_shape [of ch "[]"] show ?thesis
  proof (elim disjE exE conjE)
    fix e
    assume "print_char ch = [CHR 0x5C, e]"
    then show ?thesis by (cases "string_literal_end rest") auto
  next
    assume "print_char ch = [CHR 0x5C, CHR ''u'', CHR ''0'', CHR ''0'',
              hex_digit (byte ch div 16), hex_digit (byte ch mod 16)]"
      and "byte ch < 32"
    then show ?thesis
      using hex_digit_plain [OF lo] hex_digit_plain [OF hi]
      by (cases "string_literal_end rest") auto
  next
    assume "print_char ch = [ch]" "ch \<noteq> CHR 0x22" "ch \<noteq> CHR 0x5C"
    then show ?thesis by (cases "string_literal_end rest") auto
  qed
qed

lemma string_literal_end_print:
  "string_literal_end (concat (map print_char s) @ CHR 0x22 # rest)
     = Some (concat (map print_char s), rest)"
  by (induction s) (simp_all add: string_literal_end_print_char)

lemma decode_string_print_char:
  "decode_string (print_char ch @ tail) = map_option ((#) ch) (decode_string tail)"
proof -
  from print_char_shape [of ch tail] show ?thesis
  proof (elim disjE exE conjE)
    fix e
    assume "print_char ch = [CHR 0x5C, e]"
      and "decode_string (CHR 0x5C # e # tail) = map_option ((#) ch) (decode_string tail)"
    then show ?thesis by simp
  next
    assume p: "print_char ch = [CHR 0x5C, CHR ''u'', CHR ''0'', CHR ''0'',
              hex_digit (byte ch div 16), hex_digit (byte ch mod 16)]"
      and lt: "byte ch < 32"
    show ?thesis
      by (cases "decode_string tail") (simp_all add: p utf16_literal_low [OF lt])
  next
    assume "print_char ch = [ch]" "ch \<noteq> CHR 0x22" "ch \<noteq> CHR 0x5C"
    then show ?thesis by simp
  qed
qed

lemma decode_string_print: "decode_string (concat (map print_char s)) = Some s"
  by (induction s) (simp_all add: decode_string_print_char)

lemma c_str_idem: "c_str (c_str s) = c_str s"
  by (simp add: c_str_def)

lemma parse_string_print:
  "parse_string (print_string_ptr s @ rest) = Some (c_str s, rest)"
  by (simp add: parse_string_def print_string_ptr_def string_literal_end_print
        decode_string_print c_str_idem)

lemma parse_value_string:
  "parse_value depth (print_string_ptr s @ rest) = Some (JString (c_str s), rest)"
proof -
  have "print_string_ptr s @ rest = CHR 0x22 # tl (print_string_ptr s @ rest)"
    by (simp add: print_string_ptr_def)
  then obtain t where t: "print_string_ptr s @ rest = CHR 0x22 # t" ..
  show ?thesis
    using parse_string_print [of s rest] unfolding t
    by (simp add: parse_value.simps [of depth "CHR 0x22 # t"])
qed

subsection \<open>Parsed strings are C strings\<close>

lemma is_c_string_c_str: "is_c_string (c_str s)"
  by (auto simp: is_c_string_def c_str_def dest: set_takeWhileD)

lemma c_str_id: "is_c_string s \<Longrightarrow> c_str s = s"
  by (auto simp: is_c_string_def c_str_def takeWhile_eq_all_conv)

lemma parse_string_c_string: "parse_string s = Some (str, r) \<Longrightarrow> is_c_string str"
  by (auto simp: parse_string_def is_c_string_c_str split: list.splits if_splits option.splits)

lemma parse_number_c_strings: "parse_number s = Some (v, r) \<Longrightarrow> c_strings_json v"
  by (auto simp: parse_number_def split: option.splits)

lemma parse_c_strings:
  "parse_value depth s = Some (v, r) \<Longrightarrow> c_strings_json v"
  "parse_array_items depth1 s1 = Some (vs, r1) \<Longrightarrow> list_all c_strings_json vs"
  "parse_object_items depth2 s2 = Some (kvs, r2) \<Longrightarrow>
     list_all (\<lambda>kv. is_c_string (fst kv) \<and> c_strings_json (snd kv)) kvs"
proof (induction depth s and depth1 s1 and depth2 s2 arbitrary: v r and vs r1 and kvs r2
       rule: parse_value_parse_array_items_parse_object_items.induct)
  case (1 depth s)
  from "1.prems" show ?case
    apply (simp add: parse_value.simps [of depth s]
             split: if_splits list.splits option.splits prod.splits)
    apply (auto dest: parse_string_c_string parse_number_c_strings)
    apply ((drule "1.IH"(1)[rotated -1]; simp) | (drule "1.IH"(2)[rotated -1]; simp))+
    done
next
  case (2 depth s)
  from "2.prems" show ?case
    apply (simp add: parse_array_items.simps [of depth s]
             split: if_splits list.splits option.splits prod.splits)
    apply auto
    subgoal for v r ds vs'
      using "2.IH"(1) [of v r] by simp
    subgoal for v r ds vs'
      using "2.IH"(2) [of "(v, r)" v r "CHR '',''" ds vs' r1] by simp
    subgoal for v r
      using "2.IH"(1) [of v r] by simp
    done
next
  case (3 depth s)
  from "3.prems" show ?case
    apply (simp add: parse_object_items.simps [of depth s]
             split: if_splits list.splits option.splits prod.splits)
    apply auto
    apply ((erule parse_string_c_string) | (drule "3.IH"(1)[rotated -1]; simp)
           | (drule "3.IH"(2)[rotated -1]; simp))+
    done
qed

lemma get_object_item_c_strings:
  "list_all (\<lambda>kv. is_c_string (fst kv) \<and> c_strings_json (snd kv)) kvs \<Longrightarrow>
   get_object_item kvs name = Some v \<Longrightarrow> c_strings_json v"
  by (induction kvs name rule: get_object_item.induct) (auto split: if_splits)

lemma cJSON_GetObjectItem_c_strings:
  "c_strings_json doc \<Longrightarrow> cJSON_GetObjectItem doc name = Some v \<Longrightarrow> c_strings_json v"
  by (cases doc) (auto simp: cJSON_GetObjectItem_def dest: get_object_item_c_strings)

lemma cJSON_Parse_c_strings: "cJSON_Parse text = Some doc \<Longrightarrow> c_strings_json doc"
  by (auto simp: cJSON_Parse_def split: option.splits dest: parse_c_strings(1))

subsection \<open>A printed message array parses back\<close>

lemma c_str_literals: "c_str ''role'' = ''role''" "c_str ''content'' = ''content''"
  by (simp_all add: c_str_def)

lemma messages_array_foldl:
  "foldl (\<lambda>arr m. cJSON_AddItemToArray arr (message_object m)) (JArray vs) ms
     = JArray (vs @ map message_object ms)"
  by (induction ms arbitrary: vs) (simp_all add: cJSON_AddItemToArray_def)

lemma messages_array_map: "messages_array ms = JArray (map message_object ms)"
  by (simp add: messages_array_def messages_array_foldl)

lemma message_object_eq:
  "message_object m =
     JObject [(''role'', JString (c_str (role m))), (''content'', JString (c_str (content m)))]"
  by (simp add: message_object_def cJSON_AddStringToObject_def cJSON_AddItemToObject_def
        cJSON_CreateString_def c_str_literals)

lemma skip_ws_Cons: "32 < byte ch \<Longrightarrow> skip_ws (ch # cs) = ch # cs"
  by (simp add: skip_ws_def)

lemma skip_ws_string: "skip_ws (print_string_ptr s @ r) = print_string_ptr s @ r"
  by (simp add: print_string_ptr_def skip_ws_def byte_def)

lemma parse_member_last:
  "parse_object_items depth (print_string_ptr k @ CHR '':'' # print_string_ptr v @ CHR ''}'' # rest)
     = Some ([(c_str k, JString (c_str v))], rest)"
  by (subst parse_object_items.simps)
     (simp add: skip_ws_string parse_string_print parse_value_string skip_ws_Cons byte_def)

lemma parse_member_more:
  assumes "parse_object_items depth others = Some (kvs, rest)"
  shows "parse_object_items depth
           (print_string_ptr k @ CHR '':'' # print_string_ptr v @ CHR '','' # others)
         = Some ((c_str k, JString (c_str v)) # kvs, rest)"
  by (subst parse_object_items.simps)
     (simp add: skip_ws_string parse_string_print parse_value_string skip_ws_Cons byte_def assms)

lemma print_message_object:
  "print_value fmt (message_object m) =
     CHR ''{'' # print_string_ptr ''role'' @ CHR '':'' # print_string_ptr (role m) @ CHR '','' #
       print_string_ptr ''content'' @ CHR '':'' # print_string_ptr (content m) @ ''}''"
  by (simp add: message_object_eq print_string_ptr_def c_str_idem)

lemma parse_message_object:
  assumes "depth < CJSON_NESTING_LIMIT"
  shows "parse_value depth (print_value fmt (message_object m) @ rest) = Some (message_object m, rest)"
proof -
  let ?members = "print_string_ptr ''role'' @ CHR '':'' # print_string_ptr (role m) @ CHR '','' #
       print_string_ptr ''content'' @ CHR '':'' # print_string_ptr (content m) @ CHR ''}'' # rest"
  have shape: "print_value fmt (message_object m) @ rest = CHR ''{'' # ?members"
    by (simp add: print_message_object)
  have first: "skip_ws ?members = CHR 0x22 # tl ?members"
    by (simp add: print_string_ptr_def skip_ws_def byte_def)
  have items: "parse_object_items (Suc depth) ?members =
      Some ([(''role'', JString (c_str (role m))), (''content'', JString (c_str (content m)))], rest)"
    using parse_member_more
            [OF parse_member_last [of "Suc depth" "''content''" "content m" rest],
             where k = "''role''" and v = "role m"]
    by (simp add: c_str_literals)
  show ?thesis
    unfolding shape
    using assms
    by (subst parse_value.simps) (simp add: first items message_object_eq is_digit_def byte_def not_le)
qed

lemma skip_ws_object: "skip_ws (print_value fmt (message_object m) @ r) = print_value fmt (message_object m) @ r"
  by (simp add: print_message_object skip_ws_def byte_def)

lemma parse_array_items_messages:
  assumes "depth < CJSON_NESTING_LIMIT" and "ms \<noteq> []"
  shows "parse_array_items depth
           (join_commas (map (print_value fmt) (map message_object ms)) @ CHR '']'' # rest)
         = Some (map message_object ms, rest)"
  using assms(2)
proof (induction ms rule: list_nonempty_induct)
  case (single m)
  show ?case
    by (subst parse_array_items.simps)
       (simp add: skip_ws_object parse_message_object [OF assms(1)] skip_ws_Cons byte_def)
next
  case (cons m ms)
  then obtain m' ms' where ms: "ms = m' # ms'"
    by (cases ms) auto
  have split: "join_commas (map (print_value fmt) (map message_object (m # ms))) @ CHR '']'' # rest
      = print_value fmt (message_object m) @ CHR '','' #
          (join_commas (map (print_value fmt) (map message_object ms)) @ CHR '']'' # rest)"
    by (simp add: ms del: map_map)
  show ?case
    unfolding split
    by (subst parse_array_items.simps)
       (simp add: skip_ws_object parse_message_object [OF assms(1)] skip_ws_Cons byte_def cons.IH
          del: map_map)
qed

lemma parse_messages_array:
  "parse_value 0 (print_value fmt (messages_array ms) @ rest) = Some (messages_array ms, rest)"
proof (cases ms)
  case Nil
  show ?thesis
    by (subst parse_value.simps)
       (simp add: Nil messages_array_map skip_ws_def byte_def is_digit_def
          CJSON_NESTING_LIMIT_def)
next
  case (Cons m ms')
  then have ne: "ms \<noteq> []" by simp
  let ?items = "join_commas (map (print_value fmt) (map message_object ms)) @ CHR '']'' # rest"
  have shape: "print_value fmt (messages_array ms) @ rest = CHR ''['' # ?items"
    by (simp add: messages_array_map del: map_map)
  have lim: "Suc 0 < CJSON_NESTING_LIMIT"
    by (simp add: CJSON_NESTING_LIMIT_def)
  have first: "skip_ws ?items = CHR ''{'' # tl ?items"
    by (cases ms') (simp_all add: Cons print_message_object skip_ws_def byte_def del: map_map)
  show ?thesis
    unfolding shape
    by (subst parse_value.simps)
       (simp add: first parse_array_items_messages [OF lim ne] messages_array_map
          is_digit_def byte_def CJSON_NESTING_LIMIT_def del: map_map)
qed

lemma is_c_string_append: "is_c_string (a @ b) = (is_c_string a \<and> is_c_string b)"
  by (auto simp: is_c_string_def)

lemma is_c_string_Cons: "is_c_string (ch # s) = (ch \<noteq> CHR 0x00 \<and> is_c_string s)"
  by (auto simp: is_c_string_def)

lemma hex_digit_not_nul: "n < 16 \<Longrightarrow> hex_digit n \<noteq> CHR 0x00"
  by (simp add: byte_eq_iff [of "hex_digit n"] byte_hex_digit) (simp add: byte_def)

lemma print_char_c_string: "is_c_string (print_char ch)"
proof -
  have "byte ch div 16 < 16" if "byte ch < 32"
    using that by simp
  moreover have "byte ch mod 16 < 16" by simp
  moreover have "ch \<noteq> CHR 0x00" if "\<not> byte ch < 32"
    using that by (auto simp: byte_def)
  ultimately show ?thesis
    by (simp add: print_char_def is_c_string_Cons hex_digit_not_nul) (simp add: is_c_string_def)
qed

lemma print_string_ptr_c_string: "is_c_string (print_string_ptr s)"
proof -
  have "is_c_string (concat (map print_char t))" for t
    by (induction t) (simp_all add: is_c_string_append print_char_c_string, simp add: is_c_string_def)
  then show ?thesis
    by (simp add: print_string_ptr_def is_c_string_Cons is_c_string_append) (simp add: is_c_string_def)
qed

lemma print_message_object_c_string: "is_c_string (print_value fmt (message_object m))"
  by (simp add: print_message_object is_c_string_Cons is_c_string_append print_string_ptr_c_string)
     (simp add: is_c_string_def)

lemma join_commas_c_string:
  "list_all is_c_string xs \<Longrightarrow> is_c_string (join_commas xs)"
  by (induction xs rule: join_commas.induct)
     (simp_all add: is_c_string_append is_c_string_Cons, simp add: is_c_string_def)

lemma print_messages_array_c_string: "is_c_string (print_value fmt (messages_array ms))"
proof -
  have "list_all is_c_string (map (print_value fmt) (map message_object ms))"
    by (simp add: list_all_iff print_message_object_c_string)
  from join_commas_c_string [OF this] show ?thesis
    by (simp add: messages_array_map is_c_string_Cons is_c_string_append del: map_map)
       (simp add: is_c_string_def)
qed

lemma cJSON_Parse_messages:
  "cJSON_Parse (cJSON_PrintUnformatted fmt (messages_array ms)) = Some (messages_array ms)"
proof -
  let ?text = "print_value fmt (messages_array ms)"
  have c: "c_str ?text = ?text"
    by (rule c_str_id [OF print_messages_array_c_string])
  have shape: "?text = CHR ''['' # tl ?text"
    by (simp add: messages_array_map)
  have bom: "skip_utf8_bom ?text = ?text"
    by (subst (1 2) shape) (simp add: skip_utf8_bom_def)
  have ws: "skip_ws ?text = ?text"
    by (subst (1 2) shape) (simp add: skip_ws_def byte_def)
  show ?thesis
    using parse_messages_array [of fmt ms "[]"]
    by (simp add: cJSON_Parse_def cJSON_PrintUnformatted_def c bom ws)
qed

section \<open>The buffered exchange\<close>

lemma write_cb_foldl:
  "foldl write_cb w chunks =
     (if chunks = [] then w else Some ((case w of None \<Rightarrow> [] | Some d \<Rightarrow> d) @ concat chunks))"
  by (induction chunks arbitrary: w) (auto simp: write_cb_def split: option.splits)

lemma cJSON_Parse_empty: "cJSON_Parse [] = None"
  by (simp add: cJSON_Parse_def c_str_def skip_utf8_bom_def skip_ws_def parse_value.simps)

lemma response_body_parse:
  "(case foldl write_cb None chunks of None \<Rightarrow> None | Some d \<Rightarrow> cJSON_Parse d)
     = cJSON_Parse (concat chunks)"
  by (simp add: write_cb_foldl cJSON_Parse_empty)

text \<open>
  Claim C3 says that a retryable failure is followed by up to \<open>maxRetries\<close> further
  attempts. With \<open>max_retries = 3\<close> and a network whose first exchange fails to connect
  and whose later exchanges succeed, the buffered call performs one exchange and reports
  the HTTP error, although the very next exchange yields the reply "hi"; the streaming call
  performs one exchange as well and reports the stream error.
\<close>

theorem single_attempt_without_retry:
  "max_retries one_message = 3 \<and>
   fst (chatgpt_chat_complete one_message flaky) = None \<and>
   last_code (fst (snd (chatgpt_chat_complete one_message flaky))) = CHATGPT_ERR_HTTP \<and>
   performed (snd (snd (chatgpt_chat_complete one_message flaky))) = 1 \<and>
   fst (chatgpt_chat_complete one_message (snd (snd (chatgpt_chat_complete one_message flaky))))
     = Some ''hi'' \<and>
   fst (chatgpt_chat_complete_stream one_message (Some recorder) [] True flaky)
     = CHATGPT_ERR_STREAM \<and>
   performed (snd (snd (snd (snd
     (chatgpt_chat_complete_stream one_message (Some recorder) [] True flaky))))) = 1"
  by code_simp

text \<open>
  Claim C5 says that the status of the response is recorded on the conversation. After a
  buffered exchange answered with status 429 and an error document,
  \<open>chatgpt_last_http_code\<close> is still 0.
\<close>

theorem http_status_never_recorded:
  "http_status (script (replay rate_limited) 0) = 429 \<and>
   fst (chatgpt_chat_complete one_message (replay rate_limited)) = None \<and>
   chatgpt_last_code (fst (snd (chatgpt_chat_complete one_message (replay rate_limited))))
     = CHATGPT_ERR_API \<and>
   chatgpt_last_http_code (fst (snd (chatgpt_chat_complete one_message (replay rate_limited)))) = 0"
  by code_simp

text \<open>
  Claim C6. A buffered response that parses to a document with a top-level \<open>error\<close>
  member makes the completion fail with ApiError, whatever else the document holds: the
  reply is NULL, the error code is \<open>CHATGPT_ERR_API\<close>, the error text is the member
  \<open>message\<close> of the error when that is a string (cut to the 511 bytes of the buffer)
  and "API returned error" otherwise; the cached reply and the messages are untouched.
\<close>

theorem api_error_takes_precedence:
  assumes "curl_code (script net (performed net)) = CURLE_OK"
    and "cJSON_Parse (concat (received (script net (performed net)))) = Some doc"
    and "cJSON_GetObjectItem doc ''error'' = Some err"
  shows "fst (chatgpt_chat_complete c net) = None \<and>
         last_code (fst (snd (chatgpt_chat_complete c net))) = CHATGPT_ERR_API \<and>
         last_error (fst (snd (chatgpt_chat_complete c net))) =
           take 511 (case cJSON_GetObjectItem err ''message'' of
                       Some (JString m) \<Rightarrow> m
                     | _ \<Rightarrow> ''API returned error'') \<and>
         last_reply (fst (snd (chatgpt_chat_complete c net))) = last_reply c \<and>
         messages (fst (snd (chatgpt_chat_complete c net))) = messages c"
proof -
  let ?msg = "case cJSON_GetObjectItem err ''message'' of
                Some (JString m) \<Rightarrow> m
              | _ \<Rightarrow> ''API returned error''"
  have "c_strings_json doc"
    by (rule cJSON_Parse_c_strings [OF assms(2)])
  then have err: "c_strings_json err"
    by (rule cJSON_GetObjectItem_c_strings [OF _ assms(3)])
  have "is_c_string ?msg"
  proof (cases "cJSON_GetObjectItem err ''message''")
    case None
    then show ?thesis by (simp add: is_c_string_def)
  next
    case (Some v)
    from cJSON_GetObjectItem_c_strings [OF err Some] show ?thesis
      by (cases v) (simp_all add: Some, simp_all add: is_c_string_def)
  qed
  then have "c_str ?msg = ?msg"
    by (rule c_str_id)
  then show ?thesis
    using assms
    by (simp add: chatgpt_chat_complete_def curl_easy_perform_def response_body_parse
          set_error_def chatgpt_clear_error_def Let_def)
qed

lemma error_with_choices_doc:
  "cJSON_Parse (concat (received error_with_choices)) =
     Some (JObject
       [(''error'', JObject [(''message'', JString ''boom'')]),
        (''choices'', JArray [JObject [(''message'', JObject [(''content'', JString ''hi'')])]])])"
  by code_simp

theorem api_error_takes_precedence_witness:
  "curl_code (script (replay error_with_choices) (performed (replay error_with_choices))) = CURLE_OK \<and>
   cJSON_Parse (concat (received (script (replay error_with_choices)
       (performed (replay error_with_choices))))) =
     Some (JObject
       [(''error'', JObject [(''message'', JString ''boom'')]),
        (''choices'', JArray [JObject [(''message'', JObject [(''content'', JString ''hi'')])]])]) \<and>
   cJSON_GetObjectItem (JObject
       [(''error'', JObject [(''message'', JString ''boom'')]),
        (''choices'', JArray [JObject [(''message'', JObject [(''content'', JString ''hi'')])]])])
       ''error'' = Some (JObject [(''message'', JString ''boom'')]) \<and>
   fst (chatgpt_chat_complete (conversation_init ''sk-test'' None) (replay error_with_choices)) = None \<and>
   last_code (fst (snd (chatgpt_chat_complete (conversation_init ''sk-test'' None)
       (replay error_with_choices)))) = CHATGPT_ERR_API \<and>
   last_error (fst (snd (chatgpt_chat_complete (conversation_init ''sk-test'' None)
       (replay error_with_choices)))) = ''boom''"
proof -
  let ?doc = "JObject
       [(''error'', JObject [(''message'', JString ''boom'')]),
        (''choices'', JArray [JObject [(''message'', JObject [(''content'', JString ''hi'')])]])]"
  have h1: "curl_code (script (replay error_with_choices) (performed (replay error_with_choices)))
              = CURLE_OK"
    by (simp add: replay_def error_with_choices_def)
  have h2: "cJSON_Parse (concat (received (script (replay error_with_choices)
              (performed (replay error_with_choices))))) = Some ?doc"
    by (simp add: replay_def error_with_choices_doc)
  have h3: "cJSON_GetObjectItem ?doc ''error'' = Some (JObject [(''message'', JString ''boom'')])"
    by code_simp
  have h4: "cJSON_GetObjectItem (JObject [(''message'', JString ''boom'')]) ''message''
              = Some (JString ''boom'')"
    by code_simp
  show ?thesis
    using api_error_takes_precedence [OF h1 h2 h3, of "conversation_init ''sk-test'' None"]
      h1 h2 h3 h4
    by simp
qed

section \<open>The streaming exchange\<close>

subsection \<open>The deltas of a stream\<close>










subsection \<open>Lines and chunks\<close>

text \<open>
  Claim C2 says that a line spanning two chunks is kept in a buffer until its terminator
  arrives and is then processed, its delta emitted to the sink once and accumulated. The
  line of the claim, delivered whole with its newline, gives the sink "Hel". Delivered in
  two chunks, split after \<open>{"de\<close> and with the newline closing the second chunk, it
  gives the sink nothing and nothing is accumulated: \<open>stream_cb\<close> scans each chunk on
  its own, the first part does not parse and the second does not start with \<open>data:\<close>,
  so the delta "Hel" is lost.
\<close>

theorem line_split_across_chunks_is_lost:
  \<open>''data: {"choices":[{"de'' @ ''lta":{"content":"Hel"}}]}'' = hel_line \<and>
   ud (foldl stream_cb recording [hel_line @ [CHR 0x0A]]) = [''Hel''] \<and>
   acc (foldl stream_cb recording [hel_line @ [CHR 0x0A]]) = Some ''Hel'' \<and>
   ud (foldl stream_cb recording
         [''data: {"choices":[{"de'', ''lta":{"content":"Hel"}}]}'' @ [CHR 0x0A]]) = [] \<and>
   acc (foldl stream_cb recording
         [''data: {"choices":[{"de'', ''lta":{"content":"Hel"}}]}'' @ [CHR 0x0A]]) = None\<close>
  by code_simp

subsection \<open>The result of a stream\<close>




text \<open>
  Claim C8. A streaming completion whose transfer fails, after any chunks, returns
  StreamError, stores nothing through \<open>full_out\<close> and changes nothing of the
  conversation but its error state: the cached reply, the messages and the configuration
  are as before the call.
\<close>

theorem stream_failure_discards_partial_text:
  assumes "curl_code (script net (performed net)) = CURLE_FAILED msg"
  shows "fst (chatgpt_chat_complete_stream c callback user_data full_out net) = CHATGPT_ERR_STREAM \<and>
         fst (snd (chatgpt_chat_complete_stream c callback user_data full_out net)) =
           c\<lparr>last_error := take 511 (c_str msg), last_code := CHATGPT_ERR_STREAM,
             last_http_code := 0\<rparr> \<and>
         last_reply (fst (snd (chatgpt_chat_complete_stream c callback user_data full_out net)))
           = last_reply c \<and>
         messages (fst (snd (chatgpt_chat_complete_stream c callback user_data full_out net)))
           = messages c \<and>
         fst (snd (snd (snd (chatgpt_chat_complete_stream c callback user_data full_out net))))
           = None"
  using assms
  by (simp add: chatgpt_chat_complete_stream_def curl_easy_perform_def set_error_def
        chatgpt_clear_error_def Let_def)

theorem stream_failure_discards_partial_text_witness:
  "curl_code (script (replay broken_stream) (performed (replay broken_stream)))
     = CURLE_FAILED ''Transferred a partial file'' \<and>
   fst (chatgpt_chat_complete_stream (one_message\<lparr>last_reply := Some ''earlier''\<rparr>)
          (Some recorder) [] True (replay broken_stream)) = CHATGPT_ERR_STREAM \<and>
   last_reply (fst (snd (chatgpt_chat_complete_stream (one_message\<lparr>last_reply := Some ''earlier''\<rparr>)
          (Some recorder) [] True (replay broken_stream)))) = Some ''earlier'' \<and>
   messages (fst (snd (chatgpt_chat_complete_stream (one_message\<lparr>last_reply := Some ''earlier''\<rparr>)
          (Some recorder) [] True (replay broken_stream)))) = [\<lparr>role = ''user'', content = ''keep me''\<rparr>] \<and>
   fst (snd (snd (snd (chatgpt_chat_complete_stream (one_message\<lparr>last_reply := Some ''earlier''\<rparr>)
          (Some recorder) [] True (replay broken_stream))))) = None \<and>
   fst (snd (snd (chatgpt_chat_complete_stream (one_message\<lparr>last_reply := Some ''earlier''\<rparr>)
          (Some recorder) [] True (replay broken_stream)))) = [''Hel'']"
proof -
  have h: "curl_code (script (replay broken_stream) (performed (replay broken_stream)))
             = CURLE_FAILED ''Transferred a partial file''"
    by (simp add: replay_def broken_stream_def)
  have m: "messages one_message = [\<lparr>role = ''user'', content = ''keep me''\<rparr>]"
    by (simp add: one_message_def chatgpt_add_user_def chatgpt_add_message_def
          conversation_init_def dup_str_def c_str_def)
  have sink: "fst (snd (snd (chatgpt_chat_complete_stream (one_message\<lparr>last_reply := Some ''earlier''\<rparr>)
          (Some recorder) [] True (replay broken_stream)))) = [''Hel'']"
    by code_simp
  show ?thesis
    using stream_failure_discards_partial_text
      [OF h, of "one_message\<lparr>last_reply := Some ''earlier''\<rparr>" "Some recorder" "[]" True]
      h m sink
    by simp
qed

section \<open>Saving and loading\<close>

text \<open>
  Claim C10. When the file cannot be opened, or its contents do not parse, or the parsed
  document is not an array, \<open>chatgpt_load_conversation\<close> returns an error code and the
  conversation, its messages included, is unchanged.
\<close>

theorem load_failure_keeps_messages:
  "(contents fs path = None \<longrightarrow>
      chatgpt_load_conversation c fs path = (CHATGPT_ERR_HTTP, c)) \<and>
   (contents fs path = Some buf \<and> cJSON_Parse buf = None \<longrightarrow>
      chatgpt_load_conversation c fs path = (CHATGPT_ERR_JSON_PARSE, c)) \<and>
   (contents fs path = Some buf \<and> cJSON_Parse buf = Some doc \<and> \<not> cJSON_IsArray doc \<longrightarrow>
      chatgpt_load_conversation c fs path = (CHATGPT_ERR_JSON_PARSE, c))"
  by (auto simp: chatgpt_load_conversation_def cJSON_IsArray_def split: json.splits)

theorem load_failure_keeps_messages_witness:
  \<open>contents (disk None) ''chat.json'' = None \<and>
   chatgpt_load_conversation one_message (disk None) ''chat.json''
     = (CHATGPT_ERR_HTTP, one_message) \<and>
   contents (disk (Some ''[{"role":'')) ''chat.json'' = Some ''[{"role":'' \<and>
   cJSON_Parse ''[{"role":'' = None \<and>
   chatgpt_load_conversation one_message (disk (Some ''[{"role":'')) ''chat.json''
     = (CHATGPT_ERR_JSON_PARSE, one_message) \<and>
   contents (disk (Some ''{"role":"user"}'')) ''chat.json'' = Some ''{"role":"user"}'' \<and>
   cJSON_Parse ''{"role":"user"}'' = Some (JObject [(''role'', JString ''user'')]) \<and>
   \<not> cJSON_IsArray (JObject [(''role'', JString ''user'')]) \<and>
   chatgpt_load_conversation one_message (disk (Some ''{"role":"user"}'')) ''chat.json''
     = (CHATGPT_ERR_JSON_PARSE, one_message) \<and>
   messages one_message = [\<lparr>role = ''user'', content = ''keep me''\<rparr>]\<close>
proof -
  have a: "contents (disk None) ''chat.json'' = None"
    by (simp add: disk_def)
  have b1: \<open>contents (disk (Some ''[{"role":'')) ''chat.json'' = Some ''[{"role":''\<close>
    by (simp add: disk_def)
  have b2: \<open>cJSON_Parse ''[{"role":'' = None\<close>
    by code_simp
  have c1: \<open>contents (disk (Some ''{"role":"user"}'')) ''chat.json'' = Some ''{"role":"user"}''\<close>
    by (simp add: disk_def)
  have c2: \<open>cJSON_Parse ''{"role":"user"}'' = Some (JObject [(''role'', JString ''user'')])\<close>
    by code_simp
  have c3: "\<not> cJSON_IsArray (JObject [(''role'', JString ''user'')])"
    by (simp add: cJSON_IsArray_def)
  have m: "messages one_message = [\<lparr>role = ''user'', content = ''keep me''\<rparr>]"
    by (simp add: one_message_def chatgpt_add_user_def chatgpt_add_message_def
          conversation_init_def dup_str_def c_str_def)
  show ?thesis
    using load_failure_keeps_messages [of "disk None" "''chat.json''" one_message]
      load_failure_keeps_messages
        [of \<open>disk (Some ''[{"role":'')\<close> "''chat.json''" one_message \<open>''[{"role":''\<close>]
      load_failure_keeps_messages
        [of \<open>disk (Some ''{"role":"user"}'')\<close> "''chat.json''" one_message
            \<open>''{"role":"user"}''\<close> "JObject [(''role'', JString ''user'')]"]
      a b1 b2 c1 c2 c3 m
    by simp
qed

lemma load_entry_message:
  "load_entry c (message_object m) =
     c\<lparr>messages := messages c @ [\<lparr>role = c_str (role m), content = c_str (content m)\<rparr>]\<rparr>"
  by (simp add: load_entry_def message_object_eq cJSON_GetObjectItem_def c_str_literals
        case_insensitive_equal_def tolower_c_def byte_def chatgpt_add_message_def dup_str_def
        c_str_idem)

lemma load_entries_messages:
  "foldl load_entry c (map message_object ms) =
     c\<lparr>messages := messages c @
          map (\<lambda>m. \<lparr>role = c_str (role m), content = c_str (content m)\<rparr>) ms\<rparr>"
  by (induction ms arbitrary: c) (simp_all add: load_entry_message)

lemma tricky_messages:
  \<open>messages tricky =
     [\<lparr>role = ''system'', content = ''''\<rparr>,
      \<lparr>role = ''user'', content = ''say "hi"'' @ [CHR 0x5C, CHR 0x0A, CHR 0x01, CHR 0xC3, CHR 0xA9]\<rparr>,
      \<lparr>role = ''assistant'', content = ''ok''\<rparr>]\<close>
  by (simp add: tricky_def chatgpt_add_user_def chatgpt_add_assistant_def
      chatgpt_add_system_def chatgpt_add_message_def conversation_init_def dup_str_def c_str_def)

text \<open>
  Claim C7. For every conversation (any number of messages, any role and content C
  strings) and every writable path, saving succeeds and loading the file into any
  conversation, a fresh one included, succeeds and leaves it with exactly the saved
  sequence of (role, content) pairs.
\<close>

theorem save_load_roundtrip:
  assumes "c_string_messages (messages c)" and "writable fs path"
  shows "fst (chatgpt_save_conversation fmt c fs path) = CHATGPT_OK \<and>
         chatgpt_load_conversation c' (snd (chatgpt_save_conversation fmt c fs path)) path =
           (CHATGPT_OK, c'\<lparr>messages := messages c\<rparr>)"
proof -
  let ?j = "chatgpt_build_messages_json fmt c"
  have j: "c_str ?j = ?j"
    unfolding chatgpt_build_messages_json_def cJSON_PrintUnformatted_def
    by (rule c_str_id [OF print_messages_array_c_string])
  have p: "cJSON_Parse ?j = Some (JArray (map message_object (messages c)))"
    using cJSON_Parse_messages [of fmt "messages c"]
    by (simp add: chatgpt_build_messages_json_def messages_array_map)
  have ms: "map (\<lambda>m. \<lparr>role = c_str (role m), content = c_str (content m)\<rparr>) (messages c)
              = messages c"
    using assms(1)
    by (induction "messages c" arbitrary: c)
       (auto simp: c_string_messages_def c_str_id list_all_iff intro!: map_idI)
  show ?thesis
    using assms(2)
    by (simp add: chatgpt_save_conversation_def chatgpt_load_conversation_def Let_def j p
          chatgpt_clear_messages_def load_entries_messages ms)
qed

theorem save_load_roundtrip_witness:
  \<open>c_string_messages (messages tricky) \<and>
   writable (disk None) ''chat.json'' \<and>
   fst (chatgpt_save_conversation no_format tricky (disk None) ''chat.json'') = CHATGPT_OK \<and>
   contents (snd (chatgpt_save_conversation no_format tricky (disk None) ''chat.json'')) ''chat.json''
     = Some (''[{"role":"system","content":""},{"role":"user","content":"say '' @
             [CHR 0x5C] @ ''"hi'' @ [CHR 0x5C] @ ''"'' @ [CHR 0x5C, CHR 0x5C, CHR 0x5C] @
             ''n'' @ [CHR 0x5C] @ ''u0001'' @ [CHR 0xC3, CHR 0xA9] @
             ''"},{"role":"assistant","content":"ok"}]'') \<and>
   chatgpt_load_conversation one_message
       (snd (chatgpt_save_conversation no_format tricky (disk None) ''chat.json'')) ''chat.json''
     = (CHATGPT_OK, one_message\<lparr>messages := messages tricky\<rparr>) \<and>
   length (messages tricky) = 3\<close>
proof -
  have h1: "c_string_messages (messages tricky)"
    by (simp add: tricky_messages c_string_messages_def is_c_string_def)
  have h2: "writable (disk None) ''chat.json''"
    by (simp add: disk_def)
  have written: \<open>contents (snd (chatgpt_save_conversation no_format tricky (disk None) ''chat.json''))
      ''chat.json''
     = Some (''[{"role":"system","content":""},{"role":"user","content":"say '' @
             [CHR 0x5C] @ ''"hi'' @ [CHR 0x5C] @ ''"'' @ [CHR 0x5C, CHR 0x5C, CHR 0x5C] @
             ''n'' @ [CHR 0x5C] @ ''u0001'' @ [CHR 0xC3, CHR 0xA9] @
             ''"},{"role":"assistant","content":"ok"}]'')\<close>
    by code_simp
  show ?thesis
    using save_load_roundtrip [OF h1 h2, of no_format one_message] h1 h2 written
    by (simp add: tricky_messages)
qed

end
